theory Spec2Isabelle
  imports Complex_Main
begin

section \<open>JavaScript values of the window splitter\<close>

text \<open>
  The component of \<^verbatim>\<open>packages/window-splitter/src/index.tsx\<close> computes with JavaScript
  numbers. A number is modelled as an exact rational, or one of the three special values
  that the code itself can produce from finite inputs by dividing by zero. Rounding error
  and overflow of IEEE doubles are outside this model, and so is the sign of zero: the
  only divisors of the source are a measured width or height, a step and \<open>100\<close>, none of
  which is \<open>-0\<close>.

  A value that the source passes around may also be \<^verbatim>\<open>null\<close> (the result of
  \<^verbatim>\<open>getNewValueFromPointer\<close> without a container) or \<^verbatim>\<open>undefined\<close> (an absent prop).
\<close>

datatype jsnum = Fin rat | PInf | NInf | NaN

datatype jsval = Number jsnum | Null | Undefined

text \<open>The coercions that the operators of the language apply to their operands.\<close>

fun ToNumber :: "jsval \<Rightarrow> jsnum" where
  "ToNumber (Number n) = n"
| "ToNumber Null = Fin 0"
| "ToNumber Undefined = NaN"

fun ToBoolean :: "jsval \<Rightarrow> bool" where
  "ToBoolean (Number (Fin x)) = (x \<noteq> 0)"
| "ToBoolean (Number PInf) = True"
| "ToBoolean (Number NInf) = True"
| "ToBoolean (Number NaN) = False"
| "ToBoolean Null = False"
| "ToBoolean Undefined = False"

text \<open>An optional numeric prop: absent is \<^verbatim>\<open>undefined\<close>.\<close>

fun of_prop :: "rat option \<Rightarrow> jsval" where
  "of_prop None = Undefined"
| "of_prop (Some x) = Number (Fin x)"

text \<open>\<^verbatim>\<open>a || b\<close> for an optional numeric prop \<open>a\<close> and a number \<open>b\<close>.\<close>

definition js_or :: "rat option \<Rightarrow> rat \<Rightarrow> rat" where
  "js_or a b = (case a of None \<Rightarrow> b | Some x \<Rightarrow> if ToBoolean (Number (Fin x)) then x else b)"

text \<open>Arithmetic: \<^verbatim>\<open>-x\<close>, \<^verbatim>\<open>a + b\<close>, \<^verbatim>\<open>a - b\<close>, \<^verbatim>\<open>a * b\<close>, \<^verbatim>\<open>a / b\<close> on numbers.\<close>

fun js_neg :: "jsnum \<Rightarrow> jsnum" where
  "js_neg (Fin a) = Fin (- a)"
| "js_neg PInf = NInf"
| "js_neg NInf = PInf"
| "js_neg NaN = NaN"

fun js_add :: "jsnum \<Rightarrow> jsnum \<Rightarrow> jsnum" where
  "js_add (Fin a) (Fin b) = Fin (a + b)"
| "js_add NaN b = NaN"
| "js_add a NaN = NaN"
| "js_add PInf NInf = NaN"
| "js_add NInf PInf = NaN"
| "js_add PInf b = PInf"
| "js_add NInf b = NInf"
| "js_add (Fin a) b = b"

definition js_sub :: "jsnum \<Rightarrow> jsnum \<Rightarrow> jsnum" where
  "js_sub a b = js_add a (js_neg b)"

fun js_mul :: "jsnum \<Rightarrow> jsnum \<Rightarrow> jsnum" where
  "js_mul (Fin a) (Fin b) = Fin (a * b)"
| "js_mul NaN b = NaN"
| "js_mul a NaN = NaN"
| "js_mul PInf (Fin b) = (if b = 0 then NaN else if 0 < b then PInf else NInf)"
| "js_mul NInf (Fin b) = (if b = 0 then NaN else if 0 < b then NInf else PInf)"
| "js_mul (Fin a) PInf = (if a = 0 then NaN else if 0 < a then PInf else NInf)"
| "js_mul (Fin a) NInf = (if a = 0 then NaN else if 0 < a then NInf else PInf)"
| "js_mul PInf PInf = PInf"
| "js_mul PInf NInf = NInf"
| "js_mul NInf PInf = NInf"
| "js_mul NInf NInf = PInf"

fun js_div :: "jsnum \<Rightarrow> jsnum \<Rightarrow> jsnum" where
  "js_div (Fin a) (Fin b) =
     (if b = 0 then (if a = 0 then NaN else if 0 < a then PInf else NInf) else Fin (a / b))"
| "js_div NaN b = NaN"
| "js_div a NaN = NaN"
| "js_div (Fin a) PInf = Fin 0"
| "js_div (Fin a) NInf = Fin 0"
| "js_div PInf (Fin b) = (if 0 \<le> b then PInf else NInf)"
| "js_div NInf (Fin b) = (if 0 \<le> b then NInf else PInf)"
| "js_div PInf b = NaN"
| "js_div NInf b = NaN"

text \<open>The relational operators \<^verbatim>\<open>a < b\<close> and \<^verbatim>\<open>a > b\<close>: false whenever an operand is NaN.\<close>

fun js_lt :: "jsnum \<Rightarrow> jsnum \<Rightarrow> bool" where
  "js_lt (Fin a) (Fin b) = (a < b)"
| "js_lt NaN b = False"
| "js_lt a NaN = False"
| "js_lt PInf b = False"
| "js_lt a NInf = False"
| "js_lt NInf b = True"
| "js_lt (Fin a) PInf = True"

definition js_gt :: "jsnum \<Rightarrow> jsnum \<Rightarrow> bool" where
  "js_gt a b = js_lt b a"

text \<open>
  Strict equality \<^verbatim>\<open>a === b\<close> (NaN equals nothing) and the loose test \<^verbatim>\<open>a != null\<close>
  (false for both \<^verbatim>\<open>null\<close> and \<^verbatim>\<open>undefined\<close>).
\<close>

definition strict_eq :: "jsval \<Rightarrow> jsval \<Rightarrow> bool" where
  "strict_eq a b = (a = b \<and> a \<noteq> Number NaN)"

definition not_nullish :: "jsval \<Rightarrow> bool" where
  "not_nullish a = (a \<noteq> Null \<and> a \<noteq> Undefined)"

text \<open>\<^verbatim>\<open>Math.abs\<close> and \<^verbatim>\<open>Math.round\<close> (a tie rounds towards \<open>+\<infinity>\<close>).\<close>

fun Math_abs :: "jsnum \<Rightarrow> jsnum" where
  "Math_abs (Fin a) = Fin \<bar>a\<bar>"
| "Math_abs PInf = PInf"
| "Math_abs NInf = PInf"
| "Math_abs NaN = NaN"

fun Math_round :: "jsnum \<Rightarrow> jsnum" where
  "Math_round (Fin a) = Fin (of_int \<lfloor>a + 1 / 2\<rfloor>)"
| "Math_round n = n"

text \<open>
  \<^verbatim>\<open>Number(x.toFixed(d))\<close>: the nearest number with \<open>d\<close> decimals, a tie going away from
  zero; the special values are printed and read back unchanged.
\<close>

fun toFixed :: "jsnum \<Rightarrow> nat \<Rightarrow> jsnum" where
  "toFixed (Fin a) d = Fin (sgn a * of_int \<lfloor>\<bar>a\<bar> * 10 ^ d + 1 / 2\<rfloor> / 10 ^ d)"
| "toFixed n d = n"

text \<open>
  The number of digits after the decimal point in the decimal numeral of \<open>x\<close>, searched up
  to a bound: what \<^verbatim>\<open>x.toString().split(".")[1]\<close> has as its length (and \<open>0\<close> when there is
  no decimal part). Exponent notation, which \<^verbatim>\<open>toString\<close> uses below \<open>10\<^sup>-\<^sup>6\<close> and from
  \<open>10\<^sup>2\<^sup>1\<close> on, is outside the model.
\<close>

fun fractionDigits :: "nat \<Rightarrow> rat \<Rightarrow> nat" where
  "fractionDigits 0 x = 0"
| "fractionDigits (Suc n) x =
     (if x = of_int \<lfloor>x\<rfloor> then 0 else Suc (fractionDigits n (x * 10)))"

section \<open>The helper functions of the module\<close>

text \<open>
  \<^verbatim>\<open>function getAllowedValue(val, min, max) { return val > max ? max : val < min ? min : val; }\<close>
  The argument is the stored or the owner's value, which at run time can be any value.
\<close>

definition getAllowedValue :: "jsval \<Rightarrow> rat \<Rightarrow> rat \<Rightarrow> jsval" where
  "getAllowedValue val mn mx =
     (if js_gt (ToNumber val) (Fin mx) then Number (Fin mx)
      else if js_lt (ToNumber val) (Fin mn) then Number (Fin mn)
      else val)"

text \<open>\<^verbatim>\<open>makeValuePrecise(value, step)\<close>: \<^verbatim>\<open>value\<close> with as many decimals as \<^verbatim>\<open>step\<close> has.\<close>

definition makeValuePrecise :: "jsnum \<Rightarrow> rat \<Rightarrow> jsnum" where
  "makeValuePrecise v step =
     (let stepPrecision = fractionDigits 20 \<bar>step\<bar> in toFixed v stepPrecision)"

text \<open>\<^verbatim>\<open>percentToValue(percent, min, max) = (max - min) * percent + min\<close>\<close>

definition percentToValue :: "jsnum \<Rightarrow> rat \<Rightarrow> rat \<Rightarrow> jsnum" where
  "percentToValue percent mn mx = js_add (js_mul (Fin (mx - mn)) percent) (Fin mn)"

text \<open>\<^verbatim>\<open>roundValueToStep(value, step) = makeValuePrecise(Math.round(value / step) * step, step)\<close>\<close>

definition roundValueToStep :: "jsnum \<Rightarrow> rat \<Rightarrow> jsnum" where
  "roundValueToStep v step =
     makeValuePrecise (js_mul (Math_round (js_div v (Fin step))) (Fin step)) step"

text \<open>
  \<^verbatim>\<open>roundValueToClosest(value, min, max) =
      Math.abs(min - value) < Math.abs(max - value) ? min : max\<close>
\<close>

definition roundValueToClosest :: "jsval \<Rightarrow> rat \<Rightarrow> rat \<Rightarrow> rat" where
  "roundValueToClosest v mn mx =
     (if js_lt (Math_abs (js_sub (Fin mn) (ToNumber v))) (Math_abs (js_sub (Fin mx) (ToNumber v)))
      then mn else mx)"

section \<open>The container component\<close>

datatype WindowSplitterVariant = Variable | Fixed

datatype WindowSplitterOrientation = Horizontal | Vertical

text \<open>
  The props of \<^verbatim>\<open>WindowSplitterContainer\<close> that its logic reads. Each is optional, and
  a numeric prop that is supplied is a finite number; the
  prop \<^verbatim>\<open>value\<close> is bound to \<^verbatim>\<open>controlledValue\<close> and \<^verbatim>\<open>step\<close> to \<^verbatim>\<open>stepProp\<close>, as in the
  parameter list. \<open>onChange\<close> says whether a callback is supplied; its calls are recorded
  in the outcome of a handler.
\<close>

record props =
  defaultValue :: "rat option"
  controlledValue :: "rat option"
  max_prop :: "rat option"
  min_prop :: "rat option"
  stepProp :: "rat option"
  orientation :: "WindowSplitterOrientation option"
  variant :: "WindowSplitterVariant option"
  onChange :: bool

text \<open>The defaults of the parameter list: \<^verbatim>\<open>max = 100, min = 0\<close>, horizontal, variable.\<close>

definition max_of :: "props \<Rightarrow> rat" where
  "max_of p = (case max_prop p of None \<Rightarrow> 100 | Some m \<Rightarrow> m)"

definition min_of :: "props \<Rightarrow> rat" where
  "min_of p = (case min_prop p of None \<Rightarrow> 0 | Some m \<Rightarrow> m)"

definition isHorizontal :: "props \<Rightarrow> bool" where
  "isHorizontal p = (case orientation p of None \<Rightarrow> True | Some ori \<Rightarrow> ori = Horizontal)"

definition isVariable :: "props \<Rightarrow> bool" where
  "isVariable p = (case variant p of None \<Rightarrow> True | Some var \<Rightarrow> var = Variable)"

text \<open>\<^verbatim>\<open>const step = stepProp || 1\<close>\<close>

definition step_of :: "props \<Rightarrow> rat" where
  "step_of p = js_or (stepProp p) 1"

text \<open>
  The state of one instance: the ref \<^verbatim>\<open>isControlled\<close>, fixed by the first render, and the
  two \<^verbatim>\<open>useState\<close> cells. \<^verbatim>\<open>setValue\<close> stores whatever it is given.
\<close>

record state =
  isControlled :: bool
  internalValue :: jsval
  isPointerDown :: bool

text \<open>
  The first render:
  \<^verbatim>\<open>useRef(controlledValue != null)\<close>,
  \<^verbatim>\<open>useState(defaultValue || min + (max - min) / 2)\<close>, \<^verbatim>\<open>useState(false)\<close>.
\<close>

definition mount :: "props \<Rightarrow> state" where
  "mount p =
     \<lparr>isControlled = not_nullish (of_prop (controlledValue p)),
      internalValue =
        Number (Fin (js_or (defaultValue p) (min_of p + (max_of p - min_of p) / 2))),
      isPointerDown = False\<rparr>"

text \<open>
  \<^verbatim>\<open>const _value = isControlled ? (controlledValue as number) : internalValue;\<close>
  \<^verbatim>\<open>const value = getAllowedValue(_value, min, max);\<close>
  The second is the value that is rendered and handed to the separator.
\<close>

definition rawValue :: "props \<Rightarrow> state \<Rightarrow> jsval" where
  "rawValue p s = (if isControlled s then of_prop (controlledValue p) else internalValue s)"

definition exposedValue :: "props \<Rightarrow> state \<Rightarrow> jsval" where
  "exposedValue p s = getAllowedValue (rawValue p s) (min_of p) (max_of p)"

text \<open>
  What a handler does: the state it leaves, the arguments of its calls of \<^verbatim>\<open>onChange\<close> in
  order, and whether it called \<^verbatim>\<open>event.preventDefault()\<close>. Pointer capture and focus are
  effects on the document only and are left out.
\<close>

record outcome =
  after :: state
  notified :: "jsval list"
  defaultPrevented :: bool

definition unhandled :: "state \<Rightarrow> outcome" where
  "unhandled s = \<lparr>after = s, notified = [], defaultPrevented = False\<rparr>"

text \<open>
  \<^verbatim>\<open>function updateValue(newValue) {
      if (!isControlled) { setValue(newValue); }
      if (onChange) { onChange(newValue); } }\<close>
\<close>

definition updateValue :: "props \<Rightarrow> state \<Rightarrow> jsval \<Rightarrow> state \<times> jsval list" where
  "updateValue p s newValue =
     (if \<not> isControlled s then s\<lparr>internalValue := newValue\<rparr> else s,
      if onChange p then [newValue] else [])"

text \<open>
  The bounding box of the container, of which the source reads \<^verbatim>\<open>left\<close>, \<^verbatim>\<open>width\<close> and
  \<^verbatim>\<open>height\<close>, and the coordinates of a pointer event. \<^verbatim>\<open>windowRef.current\<close> is \<open>None\<close>
  while the container is not in the document.
\<close>

record DOMRect =
  left :: rat
  width :: rat
  height :: rat

record PointerEvent =
  clientX :: rat
  clientY :: rat

record refs =
  windowRef :: "DOMRect option"
  separatorRef :: bool

text \<open>
  \<^verbatim>\<open>getNewValueFromPointer\<close>. The statement \<^verbatim>\<open>if (step) { roundValueToStep(newValue, step); }\<close>
  computes the rounded value and drops it: \<^verbatim>\<open>newValue\<close> is not assigned.
\<close>

definition getNewValueFromPointer :: "props \<Rightarrow> DOMRect option \<Rightarrow> PointerEvent \<Rightarrow> jsval" where
  "getNewValueFromPointer p current event =
     (case current of
        None \<Rightarrow> Null
      | Some r \<Rightarrow>
          (let diff = (if isHorizontal p then clientX event - left r else clientY event);
               percent = js_div (Fin diff) (Fin (if isHorizontal p then width r else height r));
               newValue = percentToValue percent (min_of p) (max_of p);
               dropped = (if step_of p \<noteq> 0 then Some (roundValueToStep newValue (step_of p))
                          else None)
           in getAllowedValue (Number newValue) (min_of p) (max_of p)))"

text \<open>
  \<^verbatim>\<open>handleKeyDown\<close>. The \<^verbatim>\<open>switch\<close> sets \<^verbatim>\<open>flag\<close> and \<^verbatim>\<open>newValue\<close>, which starts as
  \<^verbatim>\<open>value\<close>; the case of \<^verbatim>\<open>F6\<close> is empty and the default case returns.
\<close>

definition keySwitch :: "props \<Rightarrow> jsval \<Rightarrow> rat \<Rightarrow> string \<Rightarrow> bool \<times> jsval" where
  "keySwitch p v keyStep key =
     (if key = ''ArrowLeft'' then
        (if isHorizontal p \<and> isVariable p
         then (True, Number (if isVariable p then js_sub (ToNumber v) (Fin keyStep)
                             else Fin (min_of p)))
         else (False, v))
      else if key = ''ArrowRight'' then
        (if isHorizontal p \<and> isVariable p
         then (True, Number (if isVariable p then js_add (ToNumber v) (Fin keyStep)
                             else Fin (max_of p)))
         else (False, v))
      else if key = ''ArrowUp'' then
        (if \<not> isHorizontal p \<and> isVariable p
         then (True, Number (if isVariable p then js_sub (ToNumber v) (Fin keyStep)
                             else Fin (min_of p)))
         else (False, v))
      else if key = ''ArrowDown'' then
        (if \<not> isHorizontal p \<and> isVariable p
         then (True, Number (if isVariable p then js_add (ToNumber v) (Fin keyStep)
                             else Fin (max_of p)))
         else (False, v))
      else if key = ''Home'' then (True, Number (Fin (min_of p)))
      else if key = ''End'' then (True, Number (Fin (max_of p)))
      else (False, v))"

definition handleKeyDown :: "props \<Rightarrow> state \<Rightarrow> string \<Rightarrow> outcome" where
  "handleKeyDown p s key =
     (let keyStep = js_or (stepProp p) ((max_of p - min_of p) / 100);
          (flag, newValue) = keySwitch p (exposedValue p s) keyStep key
      in if flag then
           (let rounded = roundValueToStep (ToNumber newValue) keyStep;
                allowed = getAllowedValue (Number rounded) (min_of p) (max_of p);
                (s', calls) = updateValue p s allowed
            in \<lparr>after = s', notified = calls, defaultPrevented = True\<rparr>)
         else unhandled s)"

text \<open>
  \<^verbatim>\<open>handlePointerDown\<close>: prevents the default, and with a separator in the document starts
  the drag and moves to the pointer when \<^verbatim>\<open>newValue != null && newValue !== value\<close>.
\<close>

definition handlePointerDown :: "props \<Rightarrow> state \<Rightarrow> refs \<Rightarrow> PointerEvent \<Rightarrow> outcome" where
  "handlePointerDown p s d event =
     (if separatorRef d then
        (let s1 = s\<lparr>isPointerDown := True\<rparr>;
             newValue = getNewValueFromPointer p (windowRef d) event
         in if not_nullish newValue \<and> \<not> strict_eq newValue (exposedValue p s) then
              (let (s2, calls) = updateValue p s1 newValue
               in \<lparr>after = s2, notified = calls, defaultPrevented = True\<rparr>)
            else \<lparr>after = s1, notified = [], defaultPrevented = True\<rparr>)
      else \<lparr>after = s, notified = [], defaultPrevented = True\<rparr>)"

text \<open>\<^verbatim>\<open>handlePointerUp\<close> ends the drag: \<^verbatim>\<open>setPointerDown(false)\<close>.\<close>

definition handlePointerUp :: "state \<Rightarrow> outcome" where
  "handlePointerUp s = \<lparr>after = s\<lparr>isPointerDown := False\<rparr>, notified = [], defaultPrevented = False\<rparr>"

text \<open>
  \<^verbatim>\<open>handlePointerMove\<close>, the listener of the second effect:
  \<^verbatim>\<open>const newValue = getNewValueFromPointer(event);
    if (newValue !== value) { updateValue(newValue); }\<close>
  The effect adds it to the document only while \<^verbatim>\<open>isPointerDown\<close>.
\<close>

definition handlePointerMove :: "props \<Rightarrow> state \<Rightarrow> refs \<Rightarrow> PointerEvent \<Rightarrow> outcome" where
  "handlePointerMove p s d event =
     (let newValue = getNewValueFromPointer p (windowRef d) event
      in if \<not> strict_eq newValue (exposedValue p s) then
           (let (s', calls) = updateValue p s newValue
            in \<lparr>after = s', notified = calls, defaultPrevented = False\<rparr>)
         else unhandled s)"

definition pointerMoveListener :: "props \<Rightarrow> state \<Rightarrow> refs \<Rightarrow> PointerEvent \<Rightarrow> outcome" where
  "pointerMoveListener p s d event =
     (if isPointerDown s then handlePointerMove p s d event else unhandled s)"

text \<open>
  The first effect, which settles a fixed splitter:
  \<^verbatim>\<open>if (!isVariable && !isPointerDown) {
      let newValue = roundValueToClosest(value, max, min);
      if (newValue !== value) { updateValue(newValue); } }\<close>
  The call passes \<^verbatim>\<open>max\<close> for the parameter \<^verbatim>\<open>min\<close> and \<^verbatim>\<open>min\<close> for \<^verbatim>\<open>max\<close>.
\<close>

definition fixedVariantEffect :: "props \<Rightarrow> state \<Rightarrow> outcome" where
  "fixedVariantEffect p s =
     (if \<not> isVariable p \<and> \<not> isPointerDown s then
        (let newValue = Number (Fin (roundValueToClosest (exposedValue p s) (max_of p) (min_of p)))
         in if \<not> strict_eq newValue (exposedValue p s) then
              (let (s', calls) = updateValue p s newValue
               in \<lparr>after = s', notified = calls, defaultPrevented = False\<rparr>)
            else unhandled s)
      else unhandled s)"

text \<open>
  The operations on an instance, each followed by a render with the same props: a key
  press and the pointer events on the separator, a pointer move on the document, and a run
  of the settling effect.
\<close>

datatype event =
    KeyDown string
  | PointerDown refs PointerEvent
  | PointerUp
  | PointerMove refs PointerEvent
  | SettleEffect

fun dispatch :: "props \<Rightarrow> state \<Rightarrow> event \<Rightarrow> outcome" where
  "dispatch p s (KeyDown key) = handleKeyDown p s key"
| "dispatch p s (PointerDown d ev) = handlePointerDown p s d ev"
| "dispatch p s PointerUp = handlePointerUp s"
| "dispatch p s (PointerMove d ev) = pointerMoveListener p s d ev"
| "dispatch p s SettleEffect = fixedVariantEffect p s"

fun run :: "props \<Rightarrow> state \<Rightarrow> event list \<Rightarrow> state" where
  "run p s [] = s"
| "run p s (e # es) = run p (after (dispatch p s e)) es"

section \<open>Ranges, measurable pointer events and scenarios\<close>

text \<open>A value is within the range of the props when it is a finite number from \<open>min\<close> to \<open>max\<close>.\<close>

fun withinRange :: "props \<Rightarrow> jsval \<Rightarrow> bool" where
  "withinRange p (Number (Fin x)) = (min_of p \<le> x \<and> x \<le> max_of p)"
| "withinRange p v = False"

text \<open>
  A pointer event is measurable when the container is in the document and the quotient
  \<^verbatim>\<open>diff / size\<close> of \<^verbatim>\<open>getNewValueFromPointer\<close> is not \<open>0 / 0\<close>.
\<close>

definition measured :: "props \<Rightarrow> refs \<Rightarrow> PointerEvent \<Rightarrow> bool" where
  "measured p d ev =
     (case windowRef d of
        None \<Rightarrow> False
      | Some r \<Rightarrow>
          (if isHorizontal p then width r \<noteq> 0 \<or> clientX ev - left r \<noteq> 0
           else height r \<noteq> 0 \<or> clientY ev \<noteq> 0))"

fun containerLaidOut :: "props \<Rightarrow> event \<Rightarrow> bool" where
  "containerLaidOut p (PointerDown d ev) = measured p d ev"
| "containerLaidOut p (PointerMove d ev) = measured p d ev"
| "containerLaidOut p e = True"

text \<open>A horizontal splitter from 0 to 100 with the default value 50 and no step.\<close>

definition scenarioProps :: props where
  "scenarioProps =
     \<lparr>defaultValue = Some 50, controlledValue = None, max_prop = Some 100, min_prop = Some 0,
      stepProp = None, orientation = Some Horizontal, variant = None, onChange = True\<rparr>"

text \<open>The same splitter with a step of 10, with the default value 0, owned by its parent
  at the value 30, and of the fixed variant.\<close>

definition steppedProps :: props where
  "steppedProps = scenarioProps\<lparr>stepProp := Some 10\<rparr>"

definition zeroDefaultProps :: props where
  "zeroDefaultProps = scenarioProps\<lparr>defaultValue := Some 0\<rparr>"

definition controlledProps :: props where
  "controlledProps = scenarioProps\<lparr>defaultValue := None, controlledValue := Some 30\<rparr>"

definition fixedProps :: props where
  "fixedProps = scenarioProps\<lparr>variant := Some Fixed\<rparr>"

text \<open>
  A container 200 wide at the left edge of the viewport; the refs with it in the document,
  without it, and with a container of width 0 at \<open>x = 40\<close>; a pointer at \<open>x\<close>.
\<close>

definition containerBox :: DOMRect where
  "containerBox = \<lparr>left = 0, width = 200, height = 100\<rparr>"

definition inDocument :: refs where
  "inDocument = \<lparr>windowRef = Some containerBox, separatorRef = True\<rparr>"

definition noContainer :: refs where
  "noContainer = \<lparr>windowRef = None, separatorRef = True\<rparr>"

definition collapsed :: refs where
  "collapsed = \<lparr>windowRef = Some \<lparr>left = 40, width = 0, height = 100\<rparr>, separatorRef = True\<rparr>"

definition pointerAt :: "rat \<Rightarrow> PointerEvent" where
  "pointerAt x = \<lparr>clientX = x, clientY = 0\<rparr>"

text \<open>The state of a drag started by pressing the separator where it is, at 50.\<close>

definition draggingState :: state where
  "draggingState = run scenarioProps (mount scenarioProps) [PointerDown inDocument (pointerAt 100)]"

text \<open>An uncontrolled drag that has reached 63.\<close>

definition draggedTo63 :: state where
  "draggedTo63 = \<lparr>isControlled = False, internalValue = Number (Fin 63), isPointerDown = True\<rparr>"

text \<open>Two sequences of operations: a drag followed by a key, and one that leaves the box.\<close>

definition dragAndKeys :: "event list" where
  "dragAndKeys =
     [PointerDown inDocument (pointerAt 140), PointerMove inDocument (pointerAt 160),
      PointerUp, KeyDown ''End'']"

definition farDrag :: "event list" where
  "farDrag =
     [PointerDown inDocument (pointerAt 500), KeyDown ''ArrowRight'',
      PointerMove inDocument (pointerAt (- 40)), KeyDown ''ArrowLeft'', PointerUp,
      PointerDown collapsed (pointerAt 90)]"

section \<open>Properties of the helper functions\<close>

lemma fractionDigits_int: "fractionDigits 20 (of_int k) = 0"
  by (simp add: eval_nat_numeral)

text \<open>With the step 1 an integer is its own rounding.\<close>

lemma roundValueToStep_one: "roundValueToStep (Fin (of_int k)) 1 = Fin (of_int k)"
proof -
  have "fractionDigits 20 \<bar>1::rat\<bar> = 0"
    using fractionDigits_int [of 1] by simp
  moreover have "\<lfloor>rat_of_int k + 1 / 2\<rfloor> = k" by linarith
  moreover have "sgn (rat_of_int k) * of_int \<lfloor>\<bar>rat_of_int k\<bar> + 1 / 2\<rfloor> = of_int k"
  proof -
    have "\<lfloor>\<bar>rat_of_int k\<bar> + 1 / 2\<rfloor> = \<bar>k\<bar>" by linarith
    then show ?thesis by (simp add: sgn_if)
  qed
  ultimately show ?thesis
    by (simp add: roundValueToStep_def makeValuePrecise_def)
qed

lemma roundValueToStep_Fin:
  "step \<noteq> 0 \<Longrightarrow> \<exists>x. roundValueToStep (Fin a) step = Fin x"
  by (simp add: roundValueToStep_def makeValuePrecise_def Let_def)

text \<open>Clamping a finite number gives a finite number of the range, and keeps one inside it.\<close>

lemma getAllowedValue_Fin:
  "mn \<le> mx \<Longrightarrow> \<exists>x. getAllowedValue (Number (Fin v)) mn mx = Number (Fin x) \<and> mn \<le> x \<and> x \<le> mx"
  by (auto simp: getAllowedValue_def js_gt_def)

lemma getAllowedValue_inside:
  "mn \<le> v \<Longrightarrow> v \<le> mx \<Longrightarrow> getAllowedValue (Number (Fin v)) mn mx = Number (Fin v)"
  by (auto simp: getAllowedValue_def js_gt_def)

lemma js_or_nonzero: "b \<noteq> 0 \<Longrightarrow> js_or a b \<noteq> 0"
  by (simp add: js_or_def split: option.splits)

section \<open>The value computed from a pointer event\<close>


text \<open>
  A quotient other than \<open>0 / 0\<close> is finite or infinite, and clamping makes it finite.
\<close>

lemma percentToValue_clamped:
  assumes "mn < mx" and "extent \<noteq> 0 \<or> diff \<noteq> 0"
  shows "\<exists>x. getAllowedValue (Number (percentToValue (js_div (Fin diff) (Fin extent)) mn mx)) mn mx
              = Number (Fin x)"
proof (cases "extent = 0")
  case False
  then obtain y where "percentToValue (js_div (Fin diff) (Fin extent)) mn mx = Fin y"
    by (simp add: percentToValue_def)
  then show ?thesis
    using assms(1) getAllowedValue_Fin [of mn mx y] by auto
next
  case True
  then have "diff \<noteq> 0" using assms(2) by simp
  then have "percentToValue (js_div (Fin diff) (Fin extent)) mn mx = (if 0 < diff then PInf else NInf)"
    using True assms(1) by (simp add: percentToValue_def)
  then show ?thesis
    by (simp add: getAllowedValue_def js_gt_def)
qed

lemma getNewValueFromPointer_Fin:
  assumes "measured p d ev" and "min_of p < max_of p"
  shows "\<exists>x. getNewValueFromPointer p (windowRef d) ev = Number (Fin x)"
proof -
  obtain r where r: "windowRef d = Some r"
    and z: "if isHorizontal p then width r \<noteq> 0 \<or> clientX ev - left r \<noteq> 0
            else height r \<noteq> 0 \<or> clientY ev \<noteq> 0"
    using assms(1) by (auto simp: measured_def split: option.splits)
  show ?thesis
  proof (cases "isHorizontal p")
    case True
    then show ?thesis
      using r z percentToValue_clamped [OF assms(2), of "width r" "clientX ev - left r"]
      by (simp add: getNewValueFromPointer_def Let_def)
  next
    case False
    then show ?thesis
      using r z percentToValue_clamped [OF assms(2), of "height r" "clientY ev"]
      by (simp add: getNewValueFromPointer_def Let_def)
  qed
qed

text \<open>
  C1. The claim: with the container in the document, \<^verbatim>\<open>getNewValueFromPointer\<close> returns the
  value of the pointer position rounded to the step and clamped, a multiple of a positive
  step when strictly inside the range. The code clamps the value without rounding it: the
  \<^verbatim>\<open>step\<close> prop has no influence on the result. With a step of 10, a pointer at 33 percent of
  the container gives 33, which \<^verbatim>\<open>roundValueToStep\<close> would take to 30; the key handler,
  which assigns the result of \<^verbatim>\<open>roundValueToStep\<close>, does move from 33 to 20.
\<close>

theorem pointer_value_is_not_rounded_to_step:
  "getNewValueFromPointer (p\<lparr>stepProp := st\<rparr>) c ev = getNewValueFromPointer p c ev
   \<and> step_of steppedProps = 10
   \<and> getNewValueFromPointer steppedProps (Some containerBox) (pointerAt 66) = Number (Fin 33)
   \<and> roundValueToStep (Fin 33) (step_of steppedProps) = Fin 30
   \<and> handleKeyDown steppedProps
        ((mount steppedProps)\<lparr>internalValue := Number (Fin 33)\<rparr>) ''ArrowLeft'' =
       \<lparr>after = (mount steppedProps)\<lparr>internalValue := Number (Fin 20)\<rparr>,
        notified = [Number (Fin 20)], defaultPrevented = True\<rparr>"
proof -
  have g: "getNewValueFromPointer (p\<lparr>stepProp := st\<rparr>) c ev = getNewValueFromPointer p c ev"
    by (cases c)
      (simp_all add: getNewValueFromPointer_def Let_def isHorizontal_def min_of_def max_of_def)
  have a: "step_of steppedProps = 10" by code_simp
  have b: "getNewValueFromPointer steppedProps (Some containerBox) (pointerAt 66) = Number (Fin 33)"
    by code_simp
  have c: "roundValueToStep (Fin 33) (step_of steppedProps) = Fin 30" by code_simp
  have d: "handleKeyDown steppedProps
        ((mount steppedProps)\<lparr>internalValue := Number (Fin 33)\<rparr>) ''ArrowLeft'' =
       \<lparr>after = (mount steppedProps)\<lparr>internalValue := Number (Fin 20)\<rparr>,
        notified = [Number (Fin 20)], defaultPrevented = True\<rparr>"
    by code_simp
  from g a b c d show ?thesis by blast
qed

text \<open>
  C2. The claim: without a container \<^verbatim>\<open>getNewValueFromPointer\<close> returns \<^verbatim>\<open>null\<close>, and no
  caller updates with \<^verbatim>\<open>null\<close>. The first half holds, and \<^verbatim>\<open>handlePointerDown\<close> tests
  \<^verbatim>\<open>newValue != null\<close>. \<^verbatim>\<open>handlePointerMove\<close> has no such test: during a drag, a move that
  finds no container stores \<^verbatim>\<open>null\<close> and calls \<^verbatim>\<open>onChange(null)\<close>.
\<close>

theorem pointer_move_without_container_updates_null:
  "getNewValueFromPointer p None ev = Null
   \<and> notified (handlePointerDown scenarioProps (mount scenarioProps) noContainer (pointerAt 150)) = []
   \<and> draggingState = \<lparr>isControlled = False, internalValue = Number (Fin 50), isPointerDown = True\<rparr>
   \<and> dispatch scenarioProps draggingState (PointerMove noContainer (pointerAt 150)) =
       \<lparr>after = \<lparr>isControlled = False, internalValue = Null, isPointerDown = True\<rparr>,
        notified = [Null], defaultPrevented = False\<rparr>"
proof -
  have a: "getNewValueFromPointer p None ev = Null"
    by (simp add: getNewValueFromPointer_def)
  have b: "notified (handlePointerDown scenarioProps (mount scenarioProps) noContainer (pointerAt 150)) = []"
    by code_simp
  have c: "draggingState = \<lparr>isControlled = False, internalValue = Number (Fin 50), isPointerDown = True\<rparr>"
    by code_simp
  have d: "dispatch scenarioProps draggingState (PointerMove noContainer (pointerAt 150)) =
       \<lparr>after = \<lparr>isControlled = False, internalValue = Null, isPointerDown = True\<rparr>,
        notified = [Null], defaultPrevented = False\<rparr>"
    by code_simp
  from a b c d show ?thesis by blast
qed

section \<open>The exposed value stays a number of the range\<close>

lemma keySwitch_Fin:
  assumes "keySwitch p (Number (Fin x)) k key = (True, nv)"
  shows "\<exists>y. nv = Number (Fin y)"
  using assms by (auto simp: keySwitch_def js_sub_def split: if_splits)

lemma isControlled_dispatch: "isControlled (after (dispatch p s e)) = isControlled s"
  by (cases e)
    (simp_all add: handleKeyDown_def handlePointerDown_def handlePointerUp_def
      pointerMoveListener_def handlePointerMove_def fixedVariantEffect_def unhandled_def
      updateValue_def Let_def split_beta)

lemma handleKeyDown_keeps_number:
  assumes "min_of p < max_of p" and "internalValue s = Number (Fin a)" and "\<not> isControlled s"
  shows "\<exists>b. internalValue (after (handleKeyDown p s key)) = Number (Fin b)"
proof -
  let ?k = "js_or (stepProp p) ((max_of p - min_of p) / 100)"
  have k: "?k \<noteq> 0"
    using assms(1) by (intro js_or_nonzero) simp
  obtain x where x: "exposedValue p s = Number (Fin x)"
    using assms getAllowedValue_Fin [of "min_of p" "max_of p" a]
    by (auto simp: exposedValue_def rawValue_def)
  obtain flag nv where sw: "keySwitch p (Number (Fin x)) ?k key = (flag, nv)"
    by (cases "keySwitch p (Number (Fin x)) ?k key") blast
  show ?thesis
  proof (cases flag)
    case False
    then show ?thesis
      using sw x assms(2) by (simp add: handleKeyDown_def unhandled_def)
  next
    case True
    then have "keySwitch p (Number (Fin x)) ?k key = (True, nv)"
      using sw by simp
    then obtain y where y: "nv = Number (Fin y)"
      using keySwitch_Fin by blast
    obtain z where z: "roundValueToStep (Fin y) ?k = Fin z"
      using roundValueToStep_Fin [OF k] by blast
    obtain w where "getAllowedValue (Number (Fin z)) (min_of p) (max_of p) = Number (Fin w)"
      using assms(1) getAllowedValue_Fin [of "min_of p" "max_of p" z] by auto
    then show ?thesis
      using True sw x y z assms(3)
      by (simp add: handleKeyDown_def updateValue_def Let_def)
  qed
qed

lemma dispatch_keeps_number:
  assumes "min_of p < max_of p" and "internalValue s = Number (Fin a)" and "\<not> isControlled s"
    and "containerLaidOut p e"
  shows "\<exists>b. internalValue (after (dispatch p s e)) = Number (Fin b)"
proof (cases e)
  case (KeyDown key)
  then show ?thesis
    using assms handleKeyDown_keeps_number by simp
next
  case (PointerDown d ev)
  then have "measured p d ev" using assms(4) by simp
  then obtain x where "getNewValueFromPointer p (windowRef d) ev = Number (Fin x)"
    using assms(1) getNewValueFromPointer_Fin [of p d ev] by auto
  then show ?thesis
    using PointerDown assms(2,3)
    by (simp add: handlePointerDown_def updateValue_def Let_def)
next
  case PointerUp
  then show ?thesis
    using assms(2) by (simp add: handlePointerUp_def)
next
  case (PointerMove d ev)
  then have "measured p d ev" using assms(4) by simp
  then obtain x where "getNewValueFromPointer p (windowRef d) ev = Number (Fin x)"
    using assms(1) getNewValueFromPointer_Fin [of p d ev] by auto
  then show ?thesis
    using PointerMove assms(2,3)
    by (simp add: pointerMoveListener_def handlePointerMove_def unhandled_def updateValue_def Let_def)
next
  case SettleEffect
  then show ?thesis
    using assms(2,3)
    by (simp add: fixedVariantEffect_def unhandled_def updateValue_def Let_def)
qed

lemma run_keeps_number:
  assumes "min_of p < max_of p" and "\<not> isControlled s"
  shows "internalValue s = Number (Fin a) \<Longrightarrow> list_all (containerLaidOut p) es \<Longrightarrow>
         \<exists>b. internalValue (run p s es) = Number (Fin b)"
  using assms(2)
proof (induction es arbitrary: s a)
  case Nil
  then show ?case by simp
next
  case (Cons e es)
  from Cons.prems obtain b where b: "internalValue (after (dispatch p s e)) = Number (Fin b)"
    using dispatch_keeps_number [OF assms(1), of s a e] by auto
  have "\<not> isControlled (after (dispatch p s e))"
    using Cons.prems by (simp add: isControlled_dispatch)
  with Cons.IH [OF b] Cons.prems show ?case by simp
qed

lemma isControlled_run: "isControlled (run p s es) = isControlled s"
  by (induction es arbitrary: s) (simp_all add: isControlled_dispatch)

text \<open>
  C3, as amended. For \<open>min < max\<close> and every number stored by the instance or supplied by
  its owner, inside the range or not, the exposed value is a number from \<open>min\<close> to \<open>max\<close>;
  it is so again after every sequence of operations of a controlled instance, and of an
  uncontrolled one when each pointer event is measurable.
\<close>

theorem exposed_value_stays_in_range:
  assumes "min_of p < max_of p" and "rawValue p s = Number (Fin v)"
    and "isControlled s \<or> list_all (containerLaidOut p) es"
  shows "withinRange p (exposedValue p s) \<and> withinRange p (exposedValue p (run p s es))"
proof -
  have le: "min_of p \<le> max_of p" using assms(1) by simp
  have now: "withinRange p (exposedValue p s)"
    using assms(2) getAllowedValue_Fin [OF le, of v] by (auto simp: exposedValue_def)
  have "\<exists>w. rawValue p (run p s es) = Number (Fin w)"
  proof (cases "isControlled s")
    case True
    then show ?thesis
      using assms(2) by (simp add: rawValue_def isControlled_run)
  next
    case False
    then have "internalValue s = Number (Fin v)" and "list_all (containerLaidOut p) es"
      using assms(2,3) by (simp_all add: rawValue_def)
    then show ?thesis
      using run_keeps_number [OF assms(1) False] False
      by (simp add: rawValue_def isControlled_run)
  qed
  then obtain w where "rawValue p (run p s es) = Number (Fin w)" by blast
  then have "withinRange p (exposedValue p (run p s es))"
    using getAllowedValue_Fin [OF le, of w] by (auto simp: exposedValue_def)
  with now show ?thesis by simp
qed

text \<open>
  An uncontrolled drag far out of the box on both sides, and an owner that supplies 250.
\<close>

theorem exposed_value_stays_in_range_witness:
  "min_of scenarioProps < max_of scenarioProps
   \<and> rawValue scenarioProps (mount scenarioProps) = Number (Fin 50)
   \<and> list_all (containerLaidOut scenarioProps) farDrag
   \<and> withinRange scenarioProps (exposedValue scenarioProps (run scenarioProps (mount scenarioProps) farDrag))
   \<and> rawValue (controlledProps\<lparr>controlledValue := Some 250\<rparr>) (mount controlledProps) = Number (Fin 250)
   \<and> exposedValue (controlledProps\<lparr>controlledValue := Some 250\<rparr>) (mount controlledProps) = Number (Fin 100)
   \<and> withinRange (controlledProps\<lparr>controlledValue := Some 250\<rparr>)
        (exposedValue (controlledProps\<lparr>controlledValue := Some 250\<rparr>)
           (run (controlledProps\<lparr>controlledValue := Some 250\<rparr>) (mount controlledProps) farDrag))"
proof -
  let ?c = "controlledProps\<lparr>controlledValue := Some 250\<rparr>"
  have h1: "min_of scenarioProps < max_of scenarioProps" by code_simp
  have h2: "rawValue scenarioProps (mount scenarioProps) = Number (Fin 50)" by code_simp
  have h3: "list_all (containerLaidOut scenarioProps) farDrag" by code_simp
  have k1: "min_of ?c < max_of ?c" by code_simp
  have k2: "rawValue ?c (mount controlledProps) = Number (Fin 250)" by code_simp
  have k3: "isControlled (mount controlledProps)" by code_simp
  have k4: "exposedValue ?c (mount controlledProps) = Number (Fin 100)" by code_simp
  show ?thesis
    using h1 h2 h3 k2 k4
      exposed_value_stays_in_range [OF h1 h2, of farDrag]
      exposed_value_stays_in_range [OF k1 k2, of farDrag]
      k3
    by simp
qed

text \<open>
  C3 as stated fails: on a container of width 0, a press exactly at its left edge computes
  \<open>0 / 0\<close>, and the value that is stored and exposed is NaN.
\<close>

theorem exposed_value_counterexample:
  "min_of scenarioProps < max_of scenarioProps
   \<and> exposedValue scenarioProps (mount scenarioProps) = Number (Fin 50)
   \<and> exposedValue scenarioProps
        (after (handlePointerDown scenarioProps (mount scenarioProps) collapsed (pointerAt 40))) =
       Number NaN
   \<and> \<not> withinRange scenarioProps (exposedValue scenarioProps
        (run scenarioProps (mount scenarioProps) [PointerDown collapsed (pointerAt 40)]))"
proof -
  have a: "min_of scenarioProps < max_of scenarioProps" by code_simp
  have b: "exposedValue scenarioProps (mount scenarioProps) = Number (Fin 50)" by code_simp
  have c: "exposedValue scenarioProps
        (after (handlePointerDown scenarioProps (mount scenarioProps) collapsed (pointerAt 40))) =
       Number NaN" by code_simp
  then have d: "\<not> withinRange scenarioProps (exposedValue scenarioProps
        (run scenarioProps (mount scenarioProps) [PointerDown collapsed (pointerAt 40)]))"
    by simp
  from a b c d show ?thesis by blast
qed

section \<open>The nearest edge\<close>

text \<open>
  C4. The nearest edge of a value is what the settling effect computes, by its call
  \<^verbatim>\<open>roundValueToClosest(value, max, min)\<close>, the only call of that function. It is \<open>min\<close>
  when the value is closer to \<open>min\<close>, \<open>max\<close> when it is closer to \<open>max\<close>, and \<open>min\<close> when the
  value is halfway between the two: for 40, 60 and 50 between 0 and 100 it is 0, 100 and 0,
  and an idle fixed splitter at 50 settles on 0.
\<close>

theorem nearest_edge_tie_goes_to_min:
  "(\<bar>v - mn\<bar> < \<bar>v - mx\<bar> \<longrightarrow> roundValueToClosest (Number (Fin v)) mx mn = mn)
   \<and> (\<bar>v - mx\<bar> < \<bar>v - mn\<bar> \<longrightarrow> roundValueToClosest (Number (Fin v)) mx mn = mx)
   \<and> (\<bar>v - mn\<bar> = \<bar>v - mx\<bar> \<longrightarrow> roundValueToClosest (Number (Fin v)) mx mn = mn)
   \<and> roundValueToClosest (Number (Fin 40)) 100 0 = 0
   \<and> roundValueToClosest (Number (Fin 60)) 100 0 = 100
   \<and> roundValueToClosest (Number (Fin 50)) 100 0 = 0
   \<and> fixedVariantEffect fixedProps
        \<lparr>isControlled = False, internalValue = Number (Fin 50), isPointerDown = False\<rparr> =
       \<lparr>after = \<lparr>isControlled = False, internalValue = Number (Fin 0), isPointerDown = False\<rparr>,
        notified = [Number (Fin 0)], defaultPrevented = False\<rparr>"
proof -
  have closer_min: "\<bar>v - mn\<bar> < \<bar>v - mx\<bar> \<longrightarrow> roundValueToClosest (Number (Fin v)) mx mn = mn"
    by (auto simp: roundValueToClosest_def js_sub_def)
  have closer_max: "\<bar>v - mx\<bar> < \<bar>v - mn\<bar> \<longrightarrow> roundValueToClosest (Number (Fin v)) mx mn = mx"
    by (auto simp: roundValueToClosest_def js_sub_def)
  have tie: "\<bar>v - mn\<bar> = \<bar>v - mx\<bar> \<longrightarrow> roundValueToClosest (Number (Fin v)) mx mn = mn"
    by (auto simp: roundValueToClosest_def js_sub_def)
  have examples: "roundValueToClosest (Number (Fin 40)) 100 0 = 0"
    "roundValueToClosest (Number (Fin 60)) 100 0 = 100"
    "roundValueToClosest (Number (Fin 50)) 100 0 = 0"
    by (simp_all add: roundValueToClosest_def js_sub_def)
  have settle: "fixedVariantEffect fixedProps
        \<lparr>isControlled = False, internalValue = Number (Fin 50), isPointerDown = False\<rparr> =
       \<lparr>after = \<lparr>isControlled = False, internalValue = Number (Fin 0), isPointerDown = False\<rparr>,
        notified = [Number (Fin 0)], defaultPrevented = False\<rparr>"
    by code_simp
  from closer_min closer_max tie examples settle show ?thesis by blast
qed

text \<open>The three values between 0 and 100, each under the condition that decides it.\<close>

theorem nearest_edge_tie_goes_to_min_witness:
  "\<bar>50 - 0\<bar> = \<bar>50 - (100::rat)\<bar> \<and> roundValueToClosest (Number (Fin 50)) 100 0 = 0
   \<and> \<bar>40 - 0\<bar> < \<bar>40 - (100::rat)\<bar> \<and> roundValueToClosest (Number (Fin 40)) 100 0 = 0
   \<and> \<bar>60 - 100\<bar> < \<bar>60 - (0::rat)\<bar> \<and> roundValueToClosest (Number (Fin 60)) 100 0 = 100"
proof -
  have h: "\<bar>50 - 0\<bar> = \<bar>50 - (100::rat)\<bar>" "\<bar>40 - 0\<bar> < \<bar>40 - (100::rat)\<bar>"
    "\<bar>60 - 100\<bar> < \<bar>60 - (0::rat)\<bar>"
    by simp_all
  show ?thesis
    using h nearest_edge_tie_goes_to_min [of 50 0 100] nearest_edge_tie_goes_to_min [of 40 0 100]
      nearest_edge_tie_goes_to_min [of 60 0 100]
    by blast
qed

text \<open>
  C5. For a fixed splitter with no drag going on, the effect proposes the edge of the range
  nearest to the value: it calls \<^verbatim>\<open>onChange\<close> with it when it differs from the value, and
  an uncontrolled instance then exposes it. For a variable splitter, or during a drag, the
  effect changes nothing.
\<close>

theorem fixed_variant_settles_on_nearest_edge:
  assumes "min_of p \<le> max_of p" and "exposedValue p s = Number (Fin v)"
  shows "let e = roundValueToClosest (Number (Fin v)) (max_of p) (min_of p);
             out = fixedVariantEffect p s
         in (e = min_of p \<or> e = max_of p)
          \<and> \<bar>e - v\<bar> \<le> \<bar>min_of p - v\<bar> \<and> \<bar>e - v\<bar> \<le> \<bar>max_of p - v\<bar>
          \<and> (if \<not> isVariable p \<and> \<not> isPointerDown s
             then notified out = (if e \<noteq> v \<and> onChange p then [Number (Fin e)] else [])
                \<and> (\<not> isControlled s \<longrightarrow> exposedValue p (after out) = Number (Fin e))
                \<and> isPointerDown (after out) = isPointerDown s
             else out = \<lparr>after = s, notified = [], defaultPrevented = False\<rparr>)"
proof -
  define e where "e = roundValueToClosest (Number (Fin v)) (max_of p) (min_of p)"
  have edge: "e = min_of p \<or> e = max_of p"
    by (simp add: e_def roundValueToClosest_def)
  have near: "\<bar>e - v\<bar> \<le> \<bar>min_of p - v\<bar> \<and> \<bar>e - v\<bar> \<le> \<bar>max_of p - v\<bar>"
    by (simp add: e_def roundValueToClosest_def js_sub_def)
  have clamp: "getAllowedValue (Number (Fin e)) (min_of p) (max_of p) = Number (Fin e)"
    using edge assms(1) by (auto simp: getAllowedValue_inside)
  have idle: "notified (fixedVariantEffect p s) = (if e \<noteq> v \<and> onChange p then [Number (Fin e)] else [])
       \<and> (\<not> isControlled s \<longrightarrow> exposedValue p (after (fixedVariantEffect p s)) = Number (Fin e))
       \<and> isPointerDown (after (fixedVariantEffect p s)) = isPointerDown s"
    if "\<not> isVariable p \<and> \<not> isPointerDown s"
    using that assms(2) clamp
    by (auto simp: fixedVariantEffect_def e_def [symmetric] strict_eq_def updateValue_def
        unhandled_def exposedValue_def rawValue_def Let_def)
  have busy: "fixedVariantEffect p s = \<lparr>after = s, notified = [], defaultPrevented = False\<rparr>"
    if "\<not> (\<not> isVariable p \<and> \<not> isPointerDown s)"
    using that by (auto simp: fixedVariantEffect_def unhandled_def)
  show ?thesis
    using edge near idle busy unfolding Let_def e_def [symmetric] by presburger
qed

text \<open>
  From 0 to 100, a drag that has reached 63: nothing happens while it lasts, and once the
  pointer is up the value settles on 100.
\<close>

theorem fixed_variant_settles_on_nearest_edge_witness:
  "min_of fixedProps \<le> max_of fixedProps
   \<and> exposedValue fixedProps draggedTo63 = Number (Fin 63)
   \<and> fixedVariantEffect fixedProps draggedTo63 =
       \<lparr>after = draggedTo63, notified = [], defaultPrevented = False\<rparr>
   \<and> after (handlePointerUp draggedTo63) = draggedTo63\<lparr>isPointerDown := False\<rparr>
   \<and> notified (fixedVariantEffect fixedProps (after (handlePointerUp draggedTo63))) = [Number (Fin 100)]
   \<and> exposedValue fixedProps
        (after (fixedVariantEffect fixedProps (after (handlePointerUp draggedTo63)))) = Number (Fin 100)
   \<and> exposedValue fixedProps (run fixedProps draggedTo63 [PointerUp, SettleEffect]) = Number (Fin 100)"
proof -
  let ?s = "after (handlePointerUp draggedTo63)"
  have h1: "min_of fixedProps \<le> max_of fixedProps" by code_simp
  have h2: "exposedValue fixedProps draggedTo63 = Number (Fin 63)" by code_simp
  have h3: "exposedValue fixedProps ?s = Number (Fin 63)" by code_simp
  have e: "roundValueToClosest (Number (Fin 63)) (max_of fixedProps) (min_of fixedProps) = 100"
    by code_simp
  have f: "\<not> isVariable fixedProps" "isPointerDown draggedTo63" "\<not> isPointerDown ?s"
    "\<not> isControlled ?s" "onChange fixedProps"
    "?s = draggedTo63\<lparr>isPointerDown := False\<rparr>"
    by (simp_all add: fixedProps_def scenarioProps_def isVariable_def draggedTo63_def
        handlePointerUp_def)
  show ?thesis
    using h1 h2 e f
      fixed_variant_settles_on_nearest_edge [OF h1 h2]
      fixed_variant_settles_on_nearest_edge [OF h1 h3]
    by (simp add: Let_def)
qed

section \<open>Controlled instances\<close>

lemma dispatch_controlled:
  assumes "isControlled s"
  shows "after (dispatch p s e) = s\<lparr>isPointerDown := isPointerDown (after (dispatch p s e))\<rparr>"
  using assms
  by (cases e)
    (simp_all add: handleKeyDown_def handlePointerDown_def handlePointerUp_def
      pointerMoveListener_def handlePointerMove_def fixedVariantEffect_def unhandled_def
      updateValue_def Let_def split_beta)

lemma run_controlled:
  "isControlled s \<Longrightarrow> run p s es = s\<lparr>isPointerDown := isPointerDown (run p s es)\<rparr>"
proof (induction es arbitrary: s)
  case Nil
  then show ?case by simp
next
  case (Cons e es)
  let ?t = "after (dispatch p s e)"
  have t: "?t = s\<lparr>isPointerDown := isPointerDown ?t\<rparr>"
    using Cons.prems by (rule dispatch_controlled)
  then have "isControlled ?t"
    using Cons.prems by (metis state.select_convs(1) state.surjective state.update_convs(3))
  then have "run p ?t es = ?t\<lparr>isPointerDown := isPointerDown (run p ?t es)\<rparr>"
    by (rule Cons.IH)
  with t show ?case
    by (metis run.simps(2) state.update_convs(3) state.surjective)
qed

text \<open>
  C6. In a controlled instance \<^verbatim>\<open>updateValue\<close> only calls \<^verbatim>\<open>onChange\<close>. Whatever the
  operations, with an owner that keeps supplying the same value they change nothing of
  the state but the drag flag, and the exposed value remains the owner's value, clamped.
\<close>

theorem controlled_value_never_drifts:
  assumes "isControlled s"
  shows "updateValue p s v = (s, if onChange p then [v] else [])
       \<and> run p s es = s\<lparr>isPointerDown := isPointerDown (run p s es)\<rparr>
       \<and> internalValue (run p s es) = internalValue s
       \<and> exposedValue p (run p s es) = exposedValue p s
       \<and> exposedValue p s = getAllowedValue (of_prop (controlledValue p)) (min_of p) (max_of p)"
proof -
  have r: "run p s es = s\<lparr>isPointerDown := isPointerDown (run p s es)\<rparr>"
    using assms by (rule run_controlled)
  have i: "internalValue (run p s es) = internalValue s"
    by (subst r) simp
  have c: "isControlled (run p s es) = isControlled s"
    by (subst r) simp
  have e: "exposedValue p (run p s es) = exposedValue p s"
    using i c by (simp add: exposedValue_def rawValue_def)
  have o: "exposedValue p s = getAllowedValue (of_prop (controlledValue p)) (min_of p) (max_of p)"
    using assms by (simp add: exposedValue_def rawValue_def)
  show ?thesis
    using assms r i e o by (simp add: updateValue_def)
qed

text \<open>
  An owner that holds 30: the press proposes 70, and the value exposed after the drag and
  the key is still 30.
\<close>

theorem controlled_value_never_drifts_witness:
  "isControlled (mount controlledProps)
   \<and> exposedValue controlledProps (mount controlledProps) = Number (Fin 30)
   \<and> notified (dispatch controlledProps (mount controlledProps)
         (PointerDown inDocument (pointerAt 140))) = [Number (Fin 70)]
   \<and> internalValue (run controlledProps (mount controlledProps) dragAndKeys) =
       internalValue (mount controlledProps)
   \<and> exposedValue controlledProps (run controlledProps (mount controlledProps) dragAndKeys) =
       Number (Fin 30)"
proof -
  have c: "isControlled (mount controlledProps)"
    by (simp add: mount_def controlledProps_def scenarioProps_def not_nullish_def)
  have v: "exposedValue controlledProps (mount controlledProps) = Number (Fin 30)"
    by code_simp
  have n: "notified (dispatch controlledProps (mount controlledProps)
         (PointerDown inDocument (pointerAt 140))) = [Number (Fin 70)]"
    by code_simp
  show ?thesis
    using c v n controlled_value_never_drifts [OF c, of controlledProps _ dragAndKeys]
    by simp
qed

section \<open>Keyboard\<close>

text \<open>
  C7. A horizontal, variable splitter with \<open>min = 0\<close>, \<open>max = 100\<close>, no \<^verbatim>\<open>step\<close> prop and the
  value 50: \<^verbatim>\<open>Home\<close> updates the value to 0, \<^verbatim>\<open>End\<close> to 100, and \<^verbatim>\<open>ArrowRight\<close> to 51, the
  key step being \<open>(100 - 0) / 100 = 1\<close>. The update is \<^verbatim>\<open>updateValue\<close>: it stores the value
  in an uncontrolled instance and calls \<^verbatim>\<open>onChange\<close> with it.
\<close>

theorem home_end_arrow_keys:
  assumes "min_of p = 0" and "max_of p = 100" and "stepProp p = None"
    and "isHorizontal p" and "isVariable p"
    and "exposedValue p s = Number (Fin 50)"
  shows "handleKeyDown p s ''Home'' =
           \<lparr>after = fst (updateValue p s (Number (Fin 0))),
            notified = snd (updateValue p s (Number (Fin 0))), defaultPrevented = True\<rparr>
       \<and> handleKeyDown p s ''End'' =
           \<lparr>after = fst (updateValue p s (Number (Fin 100))),
            notified = snd (updateValue p s (Number (Fin 100))), defaultPrevented = True\<rparr>
       \<and> handleKeyDown p s ''ArrowRight'' =
           \<lparr>after = fst (updateValue p s (Number (Fin 51))),
            notified = snd (updateValue p s (Number (Fin 51))), defaultPrevented = True\<rparr>"
proof -
  have k: "js_or (stepProp p) ((max_of p - min_of p) / 100) = 1"
    using assms by (simp add: js_or_def)
  have r0: "roundValueToStep (Fin 0) 1 = Fin 0"
    using roundValueToStep_one [of 0] by simp
  have r100: "roundValueToStep (Fin 100) 1 = Fin 100"
    using roundValueToStep_one [of 100] by simp
  have r51: "roundValueToStep (Fin 51) 1 = Fin 51"
    using roundValueToStep_one [of 51] by simp
  have home: "handleKeyDown p s ''Home'' =
           \<lparr>after = fst (updateValue p s (Number (Fin 0))),
            notified = snd (updateValue p s (Number (Fin 0))), defaultPrevented = True\<rparr>"
    using assms k r0
    by (simp add: handleKeyDown_def keySwitch_def getAllowedValue_inside split_beta Let_def)
  have endk: "handleKeyDown p s ''End'' =
           \<lparr>after = fst (updateValue p s (Number (Fin 100))),
            notified = snd (updateValue p s (Number (Fin 100))), defaultPrevented = True\<rparr>"
    using assms k r100
    by (simp add: handleKeyDown_def keySwitch_def getAllowedValue_inside split_beta Let_def)
  have right: "handleKeyDown p s ''ArrowRight'' =
           \<lparr>after = fst (updateValue p s (Number (Fin 51))),
            notified = snd (updateValue p s (Number (Fin 51))), defaultPrevented = True\<rparr>"
    using assms k r51
    by (simp add: handleKeyDown_def keySwitch_def getAllowedValue_inside split_beta Let_def)
  from home endk right show ?thesis by blast
qed

text \<open>The scenario itself, from the first render of an uncontrolled instance.\<close>

theorem home_end_arrow_keys_witness:
  "min_of scenarioProps = 0 \<and> max_of scenarioProps = 100 \<and> stepProp scenarioProps = None
   \<and> isHorizontal scenarioProps \<and> isVariable scenarioProps
   \<and> exposedValue scenarioProps (mount scenarioProps) = Number (Fin 50)
   \<and> internalValue (after (handleKeyDown scenarioProps (mount scenarioProps) ''Home'')) = Number (Fin 0)
   \<and> internalValue (after (handleKeyDown scenarioProps (mount scenarioProps) ''End'')) = Number (Fin 100)
   \<and> internalValue (after (handleKeyDown scenarioProps (mount scenarioProps) ''ArrowRight'')) = Number (Fin 51)
   \<and> notified (handleKeyDown scenarioProps (mount scenarioProps) ''ArrowRight'') = [Number (Fin 51)]"
proof -
  have h: "min_of scenarioProps = 0" "max_of scenarioProps = 100" "stepProp scenarioProps = None"
    "isHorizontal scenarioProps" "isVariable scenarioProps"
    by (simp_all add: scenarioProps_def min_of_def max_of_def isHorizontal_def isVariable_def)
  have v: "exposedValue scenarioProps (mount scenarioProps) = Number (Fin 50)"
    by (simp add: exposedValue_def rawValue_def mount_def scenarioProps_def min_of_def max_of_def
        js_or_def not_nullish_def getAllowedValue_def js_gt_def)
  have c: "\<not> isControlled (mount scenarioProps)" "onChange scenarioProps"
    by (simp_all add: mount_def scenarioProps_def not_nullish_def)
  show ?thesis
    using h v c home_end_arrow_keys [OF h v] by (simp add: updateValue_def)
qed

text \<open>
  C8. A key that is not one of the six that the handler acts on, or an arrow key of the
  other orientation, is left unhandled: the state and so the value are unchanged,
  \<^verbatim>\<open>onChange\<close> is not called, and neither is \<^verbatim>\<open>preventDefault\<close>.
\<close>

theorem unhandled_keys_change_nothing:
  assumes "key \<notin> {''ArrowLeft'', ''ArrowRight'', ''ArrowUp'', ''ArrowDown'', ''Home'', ''End''}
           \<or> (isHorizontal p \<and> key \<in> {''ArrowUp'', ''ArrowDown''})
           \<or> (\<not> isHorizontal p \<and> key \<in> {''ArrowLeft'', ''ArrowRight''})"
  shows "handleKeyDown p s key = \<lparr>after = s, notified = [], defaultPrevented = False\<rparr>"
  using assms
  by (auto simp: handleKeyDown_def keySwitch_def unhandled_def Let_def)

text \<open>The vertical arrows and Tab on a horizontal splitter, ArrowLeft on a vertical one.\<close>

theorem unhandled_keys_change_nothing_witness:
  "isHorizontal scenarioProps
   \<and> handleKeyDown scenarioProps (mount scenarioProps) ''ArrowUp'' =
       \<lparr>after = mount scenarioProps, notified = [], defaultPrevented = False\<rparr>
   \<and> handleKeyDown scenarioProps (mount scenarioProps) ''ArrowDown'' =
       \<lparr>after = mount scenarioProps, notified = [], defaultPrevented = False\<rparr>
   \<and> handleKeyDown scenarioProps (mount scenarioProps) ''Tab'' =
       \<lparr>after = mount scenarioProps, notified = [], defaultPrevented = False\<rparr>
   \<and> handleKeyDown (scenarioProps\<lparr>orientation := Some Vertical\<rparr>) (mount scenarioProps) ''ArrowLeft'' =
       \<lparr>after = mount scenarioProps, notified = [], defaultPrevented = False\<rparr>"
proof -
  have h: "isHorizontal scenarioProps" "\<not> isHorizontal (scenarioProps\<lparr>orientation := Some Vertical\<rparr>)"
    by (simp_all add: scenarioProps_def isHorizontal_def)
  show ?thesis
    using h unhandled_keys_change_nothing [of "''ArrowUp''" scenarioProps "mount scenarioProps"]
      unhandled_keys_change_nothing [of "''ArrowDown''" scenarioProps "mount scenarioProps"]
      unhandled_keys_change_nothing [of "''Tab''" scenarioProps "mount scenarioProps"]
      unhandled_keys_change_nothing [of "''ArrowLeft''" "scenarioProps\<lparr>orientation := Some Vertical\<rparr>" "mount scenarioProps"]
    by simp
qed

section \<open>The first render\<close>

text \<open>
  C9. The claim: an uncontrolled instance starts at \<^verbatim>\<open>defaultValue\<close> when one is supplied,
  0 included, and at the midpoint otherwise. The initial value is
  \<^verbatim>\<open>defaultValue || min + (max - min) / 2\<close>, which takes the midpoint also for the default
  value 0: from 0 to 100 the instance starts at 50.
\<close>

theorem zero_default_value_is_replaced:
  "internalValue (mount p) =
     Number (Fin (case defaultValue p of
        None \<Rightarrow> min_of p + (max_of p - min_of p) / 2
      | Some x \<Rightarrow> if x = 0 then min_of p + (max_of p - min_of p) / 2 else x))
   \<and> defaultValue zeroDefaultProps = Some 0
   \<and> mount zeroDefaultProps =
       \<lparr>isControlled = False, internalValue = Number (Fin 50), isPointerDown = False\<rparr>
   \<and> exposedValue zeroDefaultProps (mount zeroDefaultProps) = Number (Fin 50)"
proof -
  have g: "internalValue (mount p) =
     Number (Fin (case defaultValue p of
        None \<Rightarrow> min_of p + (max_of p - min_of p) / 2
      | Some x \<Rightarrow> if x = 0 then min_of p + (max_of p - min_of p) / 2 else x))"
    by (simp add: mount_def js_or_def split: option.splits)
  have a: "defaultValue zeroDefaultProps = Some 0"
    by (simp add: zeroDefaultProps_def)
  have b: "mount zeroDefaultProps =
       \<lparr>isControlled = False, internalValue = Number (Fin 50), isPointerDown = False\<rparr>"
    by code_simp
  have c: "exposedValue zeroDefaultProps (mount zeroDefaultProps) = Number (Fin 50)"
    by code_simp
  from g a b c show ?thesis by blast
qed

section \<open>Pressing the separator\<close>



end
